theory Spec2Isabelle
  imports Complex_Main
begin

section \<open>UK wealth tax impact simulator\<close>

text \<open>
  A shallow embedding of \<^verbatim>\<open>streamlit_app.py\<close>: the initial wealth distribution,
  the year-by-year simulation \<^verbatim>\<open>simulate_wealth_tax_impact\<close> and the tax revenue
  recomputed from the simulation results.

  Numbers: the program computes with Python floats. They are modelled as real numbers, so
  every arithmetic operation below is exact and the theorems speak about the recurrence the
  program implements, not about the rounding of its binary floating point. The year
  counter and the horizon are Python integers and are modelled as \<^typ>\<open>int\<close>.
\<close>

subsection \<open>Data\<close>

text \<open>
  One entry of the dictionary built by \<^verbatim>\<open>initialize_wealth_groups\<close>: the population of
  a group (in millions) and its total wealth (in billions of pounds).
\<close>

record wealth_group =
  population :: real
  total_wealth :: real

text \<open>
  The dictionary of groups. It always has the same three keys, the labels
  \<^verbatim>\<open>Ultra Wealthy\<close>, \<^verbatim>\<open>Middle Wealth\<close> and \<^verbatim>\<open>Lower Wealth\<close>, so it is a record
  with one field for each key.
\<close>

record wealth_groups =
  group_ultra_wealthy :: wealth_group
  group_middle_wealth :: wealth_group
  group_lower_wealth :: wealth_group

definition initialize_wealth_groups :: wealth_groups where
  "initialize_wealth_groups =
     (let group_1_population = 0.022;
          group_2_population = 30;
          group_3_population = 36;
          group_1_wealth = 1200;
          group_2_wealth = 8000;
          group_3_wealth = 800
      in \<lparr>group_ultra_wealthy = \<lparr>population = group_1_population, total_wealth = group_1_wealth\<rparr>,
          group_middle_wealth = \<lparr>population = group_2_population, total_wealth = group_2_wealth\<rparr>,
          group_lower_wealth = \<lparr>population = group_3_population, total_wealth = group_3_wealth\<rparr>\<rparr>)"

text \<open>
  One row of the result: the dictionary \<^verbatim>\<open>current_state\<close> with the key \<^verbatim>\<open>year\<close> and
  the wealth of the three groups under the same three labels.
\<close>

record year_state =
  year :: int
  ultra_wealthy :: real
  middle_wealth :: real
  lower_wealth :: real

text \<open>
  The local variables of one iteration of the loop, in the order in which the body
  assigns them.
\<close>

record year_locals =
  ultra_wealthy_growth :: real
  middle_wealth_growth :: real
  lower_wealth_growth :: real
  ultra_wealthy_new :: real
  middle_wealth_new :: real
  lower_wealth_new :: real
  tax_collected :: real
  ultra_wealthy_after_tax :: real
  tax_to_redistribute :: real
  middle_wealth_share :: real
  lower_wealth_share :: real
  middle_wealth_final :: real
  lower_wealth_final :: real

subsection \<open>The simulation\<close>

text \<open>
  The body of the loop up to the last assignment before the state is rebuilt: growth,
  tax on the grown wealth of the ultra wealthy, and the redistribution of the revenue,
  30% to the middle group and 70% to the lower group.
\<close>

definition loop_body :: "real \<Rightarrow> real \<Rightarrow> real \<Rightarrow> real \<Rightarrow> year_state \<Rightarrow> year_locals" where
  "loop_body tax_rate growth_rate high_wealth_premium redistribution_eff current_state =
     (let ultra_wealthy_growth' =
            ultra_wealthy current_state * ((growth_rate + high_wealth_premium) / 100);
          middle_wealth_growth' = middle_wealth current_state * (growth_rate / 100);
          lower_wealth_growth' = lower_wealth current_state * (growth_rate / 100);
          ultra_wealthy_new' = ultra_wealthy current_state + ultra_wealthy_growth';
          middle_wealth_new' = middle_wealth current_state + middle_wealth_growth';
          lower_wealth_new' = lower_wealth current_state + lower_wealth_growth';
          tax_collected' = ultra_wealthy_new' * (tax_rate / 100);
          ultra_wealthy_after_tax' = ultra_wealthy_new' - tax_collected';
          tax_to_redistribute' = tax_collected' * redistribution_eff;
          middle_wealth_share' = 0.3;
          lower_wealth_share' = 0.7;
          middle_wealth_final' = middle_wealth_new' + tax_to_redistribute' * middle_wealth_share';
          lower_wealth_final' = lower_wealth_new' + tax_to_redistribute' * lower_wealth_share'
      in \<lparr>ultra_wealthy_growth = ultra_wealthy_growth',
          middle_wealth_growth = middle_wealth_growth',
          lower_wealth_growth = lower_wealth_growth',
          ultra_wealthy_new = ultra_wealthy_new',
          middle_wealth_new = middle_wealth_new',
          lower_wealth_new = lower_wealth_new',
          tax_collected = tax_collected',
          ultra_wealthy_after_tax = ultra_wealthy_after_tax',
          tax_to_redistribute = tax_to_redistribute',
          middle_wealth_share = middle_wealth_share',
          lower_wealth_share = lower_wealth_share',
          middle_wealth_final = middle_wealth_final',
          lower_wealth_final = lower_wealth_final'\<rparr>)"

text \<open>The new \<^verbatim>\<open>current_state\<close> that ends the body of the loop.\<close>

definition update_state :: "int \<Rightarrow> year_locals \<Rightarrow> year_state" where
  "update_state yr l =
     \<lparr>year = yr,
      ultra_wealthy = ultra_wealthy_after_tax l,
      middle_wealth = middle_wealth_final l,
      lower_wealth = lower_wealth_final l\<rparr>"

text \<open>
  The loop \<^verbatim>\<open>for year in range(1, years + 1)\<close> over the years still to come. Its state
  is the pair of \<^verbatim>\<open>current_state\<close> and \<^verbatim>\<open>results\<close>; each iteration replaces the first and
  appends it to the second.
\<close>

fun for_years ::
  "real \<Rightarrow> real \<Rightarrow> real \<Rightarrow> real \<Rightarrow> int list \<Rightarrow> year_state \<Rightarrow> year_state list
     \<Rightarrow> year_state \<times> year_state list" where
  "for_years tax_rate growth_rate high_wealth_premium redistribution_eff [] current_state results =
     (current_state, results)"
| "for_years tax_rate growth_rate high_wealth_premium redistribution_eff (yr # yrs) current_state results =
     (let current_state' =
            update_state yr
              (loop_body tax_rate growth_rate high_wealth_premium redistribution_eff current_state)
      in for_years tax_rate growth_rate high_wealth_premium redistribution_eff yrs
           current_state' (results @ [current_state']))"

text \<open>The state of year 0, read from the dictionary of groups.\<close>

definition initial_state :: "wealth_groups \<Rightarrow> year_state" where
  "initial_state wealth_groups =
     \<lparr>year = 0,
      ultra_wealthy = total_wealth (group_ultra_wealthy wealth_groups),
      middle_wealth = total_wealth (group_middle_wealth wealth_groups),
      lower_wealth = total_wealth (group_lower_wealth wealth_groups)\<rparr>"

text \<open>
  The simulation, with the parameters of the source in their order. The data frame that
  the source returns is the list of its rows. \<^verbatim>\<open>range(1, years + 1)\<close> is the list
  \<open>[1..years]\<close>, empty when \<open>years < 1\<close>.
\<close>

definition simulate_wealth_tax_impact ::
  "wealth_groups \<Rightarrow> int \<Rightarrow> real \<Rightarrow> real \<Rightarrow> real \<Rightarrow> real \<Rightarrow> real \<Rightarrow> year_state list" where
  "simulate_wealth_tax_impact wealth_groups years tax_rate threshold growth_rate
       high_wealth_premium redistribution_eff =
     (let current_state = initial_state wealth_groups;
          results = [] @ [current_state]
      in snd (for_years tax_rate growth_rate high_wealth_premium redistribution_eff
                [1..years] current_state results))"

subsection \<open>Tax revenue recomputed from the results\<close>



subsection \<open>The update rule as the specification words it\<close>


subsection \<open>Nonnegative states\<close>


section \<open>Properties of the loop\<close>

lemma for_years_length:
  "length (snd (for_years tr g hp eff yrs cur results)) = length results + length yrs"
  by (induction yrs arbitrary: cur results) (simp_all add: Let_def)

lemma for_years_prefix:
  "i < length results \<Longrightarrow> snd (for_years tr g hp eff yrs cur results) ! i = results ! i"
  by (induction yrs arbitrary: cur results) (simp_all add: Let_def nth_append)

lemma for_years_nth:
  "j < length yrs \<Longrightarrow> results \<noteq> [] \<Longrightarrow> last results = cur \<Longrightarrow>
   snd (for_years tr g hp eff yrs cur results) ! (length results + j) =
     update_state (yrs ! j)
       (loop_body tr g hp eff (snd (for_years tr g hp eff yrs cur results) ! (length results + j - 1)))"
proof (induction yrs arbitrary: cur results j)
  case Nil
  then show ?case by simp
next
  case (Cons yr yrs)
  let ?new = "update_state yr (loop_body tr g hp eff cur)"
  let ?out = "snd (for_years tr g hp eff yrs ?new (results @ [?new]))"
  have out: "snd (for_years tr g hp eff (yr # yrs) cur results) = ?out"
    by (simp add: Let_def)
  show ?case
  proof (cases j)
    case 0
    have new: "?out ! length results = ?new"
      using for_years_prefix [of "length results" "results @ [?new]" tr g hp eff yrs ?new]
      by simp
    have "?out ! (length results - 1) = results ! (length results - 1)"
      using for_years_prefix [of "length results - 1" "results @ [?new]" tr g hp eff yrs ?new]
        Cons.prems(2)
      by (simp add: nth_append)
    then have old: "?out ! (length results - 1) = cur"
      using Cons.prems(2,3) by (simp add: last_conv_nth)
    show ?thesis
      unfolding out using 0 new old by simp
  next
    case (Suc k)
    then have k: "k < length yrs"
      using Cons.prems(1) by simp
    have "?out ! (length (results @ [?new]) + k) =
            update_state (yrs ! k)
              (loop_body tr g hp eff (?out ! (length (results @ [?new]) + k - 1)))"
      by (rule Cons.IH [OF k]) simp_all
    then show ?thesis
      unfolding out using Suc by simp
  qed
qed

section \<open>Properties of the trajectory\<close>

lemma simulate_unfold:
  "simulate_wealth_tax_impact wg years tr th g hp eff =
     snd (for_years tr g hp eff [1..years] (initial_state wg) [initial_state wg])"
  by (simp add: simulate_wealth_tax_impact_def Let_def)

lemma simulate_length:
  "length (simulate_wealth_tax_impact wg years tr th g hp eff) = nat years + 1"
  by (simp add: simulate_unfold for_years_length)

lemma simulate_first:
  "simulate_wealth_tax_impact wg years tr th g hp eff ! 0 = initial_state wg"
  by (simp add: simulate_unfold for_years_prefix)

lemma simulate_step:
  assumes "1 \<le> t" and "t \<le> years"
  shows "simulate_wealth_tax_impact wg years tr th g hp eff ! nat t =
           update_state t
             (loop_body tr g hp eff
                (simulate_wealth_tax_impact wg years tr th g hp eff ! (nat t - 1)))"
proof -
  let ?j = "nat t - 1"
  have j: "?j < length [1..years]"
    using assms by simp
  have yr: "[1..years] ! ?j = t"
    using assms nth_upto [of 1 ?j years] by simp
  have t: "nat t = length [initial_state wg] + ?j"
    using assms by simp
  show ?thesis
    using for_years_nth [OF j, of "[initial_state wg]" "initial_state wg" tr g hp eff] yr t
    by (simp add: simulate_unfold)
qed

lemma simulate_year:
  assumes "i \<le> nat years"
  shows "year (simulate_wealth_tax_impact wg years tr th g hp eff ! i) = int i"
proof (cases i)
  case 0
  then show ?thesis
    by (simp add: simulate_first initial_state_def)
next
  case (Suc k)
  then have "1 \<le> int i" and "int i \<le> years"
    using assms by simp_all
  from simulate_step [OF this, of wg tr th g hp eff] show ?thesis
    by (simp add: update_state_def)
qed

subsection \<open>The assignments of the loop body\<close>






subsection \<open>Nonnegativity is preserved\<close>



section \<open>Properties stated by the specification\<close>



text \<open>
  C2: for \<open>years \<ge> 0\<close> the trajectory has \<open>years + 1\<close> rows, its first row is the
  initial distribution unchanged, and the years of its rows are \<open>0, 1, \<dots>, years\<close> in
  strictly increasing order; with \<open>years = 0\<close> it is the single row of the initial state.
\<close>

theorem trajectory_shape:
  assumes "0 \<le> years"
  shows "int (length (simulate_wealth_tax_impact wg years tr th g hp eff)) = years + 1 \<and>
         simulate_wealth_tax_impact wg years tr th g hp eff ! 0 =
           \<lparr>year = 0,
            ultra_wealthy = total_wealth (group_ultra_wealthy wg),
            middle_wealth = total_wealth (group_middle_wealth wg),
            lower_wealth = total_wealth (group_lower_wealth wg)\<rparr> \<and>
         map year (simulate_wealth_tax_impact wg years tr th g hp eff) = [0..years] \<and>
         sorted_wrt (<) (map year (simulate_wealth_tax_impact wg years tr th g hp eff)) \<and>
         (years = 0 \<longrightarrow>
            simulate_wealth_tax_impact wg years tr th g hp eff =
              [\<lparr>year = 0,
                ultra_wealthy = total_wealth (group_ultra_wealthy wg),
                middle_wealth = total_wealth (group_middle_wealth wg),
                lower_wealth = total_wealth (group_lower_wealth wg)\<rparr>])"
proof -
  let ?rs = "simulate_wealth_tax_impact wg years tr th g hp eff"
  have len: "int (length ?rs) = years + 1"
    using assms by (simp add: simulate_length)
  have first: "?rs ! 0 = initial_state wg"
    by (rule simulate_first)
  have years: "map year ?rs = [0..years]"
  proof (rule nth_equalityI)
    show "length (map year ?rs) = length [0..years]"
      using assms by (simp add: simulate_length)
  next
    fix i
    assume "i < length (map year ?rs)"
    then have i: "i \<le> nat years"
      by (simp add: simulate_length)
    then have "int i \<le> years"
      using assms by simp
    then have "[0..years] ! i = int i"
      using nth_upto [of 0 i years] by simp
    then show "map year ?rs ! i = [0..years] ! i"
      using i simulate_year [OF i, of wg tr th g hp eff] by (simp add: simulate_length)
  qed
  have single: "?rs = [initial_state wg]" if "years = 0"
  proof -
    have "length ?rs = 1"
      using that by (simp add: simulate_length)
    then obtain s where s: "?rs = [s]"
      by (cases ?rs) simp_all
    with first show ?thesis by simp
  qed
  show ?thesis
    using len first years single by (simp add: initial_state_def sorted_wrt_upto)
qed

theorem trajectory_shape_witness:
  "(0::int) \<le> 2 \<and>
   int (length (simulate_wealth_tax_impact initialize_wealth_groups 2 2 10000000 5 1 0.8)) = 3 \<and>
   simulate_wealth_tax_impact initialize_wealth_groups 2 2 10000000 5 1 0.8 ! 0 =
     \<lparr>year = 0, ultra_wealthy = 1200, middle_wealth = 8000, lower_wealth = 800\<rparr> \<and>
   map year (simulate_wealth_tax_impact initialize_wealth_groups 2 2 10000000 5 1 0.8) = [0, 1, 2] \<and>
   simulate_wealth_tax_impact initialize_wealth_groups 0 2 10000000 5 1 0.8 =
     [\<lparr>year = 0, ultra_wealthy = 1200, middle_wealth = 8000, lower_wealth = 800\<rparr>]"
  using trajectory_shape [of 2 initialize_wealth_groups 2 10000000 5 1 "0.8"]
    trajectory_shape [of 0 initialize_wealth_groups 2 10000000 5 1 "0.8"]
  by (simp add: initialize_wealth_groups_def upto.simps)



text \<open>
  C5: the trajectory does not depend on the wealth threshold. Two runs that differ only
  in the threshold return the same list of rows.
\<close>

theorem threshold_noninterference:
  "simulate_wealth_tax_impact wg years tr threshold1 g hp eff =
   simulate_wealth_tax_impact wg years tr threshold2 g hp eff"
  by (simp add: simulate_unfold)








end
